theory Spec2Isabelle
  imports Complex_Main "HOL-Library.Multiset"
begin

section \<open>Strings and numbers of the host language\<close>

text \<open>
  A JavaScript string is a sequence of UTF-16 code units; a code unit is modelled by its
  number, so \<open>length\<close> counts what \<^verbatim>\<open>.length\<close> counts. \<open>js\<close> turns
  an ASCII literal into such a string.
\<close>

type_synonym jsstring = "nat list"

definition js :: "string \<Rightarrow> jsstring" where
  "js s = map of_char s"

text \<open>
  A JavaScript number is modelled by an exact rational, or one of the three special values.
  Arithmetic on finite values is exact: the rounding of binary64 (and signed zero) is not
  part of the model.
\<close>

datatype jsnum = Num rat | PosInf | NegInf | NaN

fun js_isNaN :: "jsnum \<Rightarrow> bool" where
  "js_isNaN NaN = True"
| "js_isNaN _ = False"

fun js_add :: "jsnum \<Rightarrow> jsnum \<Rightarrow> jsnum" where
  "js_add NaN _ = NaN"
| "js_add _ NaN = NaN"
| "js_add (Num a) (Num b) = Num (a + b)"
| "js_add PosInf NegInf = NaN"
| "js_add NegInf PosInf = NaN"
| "js_add PosInf _ = PosInf"
| "js_add _ PosInf = PosInf"
| "js_add NegInf _ = NegInf"
| "js_add _ NegInf = NegInf"

fun js_lt :: "jsnum \<Rightarrow> jsnum \<Rightarrow> bool" where
  "js_lt NaN _ = False"
| "js_lt _ NaN = False"
| "js_lt (Num a) (Num b) = (a < b)"
| "js_lt PosInf _ = False"
| "js_lt _ PosInf = True"
| "js_lt NegInf _ = True"
| "js_lt _ NegInf = False"

definition js_gt :: "jsnum \<Rightarrow> jsnum \<Rightarrow> bool" where
  "js_gt a b = js_lt b a"

fun js_le :: "jsnum \<Rightarrow> jsnum \<Rightarrow> bool" where
  "js_le NaN _ = False"
| "js_le _ NaN = False"
| "js_le (Num a) (Num b) = (a \<le> b)"
| "js_le NegInf _ = True"
| "js_le _ PosInf = True"
| "js_le PosInf _ = False"
| "js_le _ NegInf = False"

fun js_neg :: "jsnum \<Rightarrow> jsnum" where
  "js_neg (Num a) = Num (- a)"
| "js_neg PosInf = NegInf"
| "js_neg NegInf = PosInf"
| "js_neg NaN = NaN"

fun js_div :: "jsnum \<Rightarrow> jsnum \<Rightarrow> jsnum" where
  "js_div NaN _ = NaN"
| "js_div _ NaN = NaN"
| "js_div (Num a) (Num b) =
     (if b = 0 then (if a = 0 then NaN else if 0 < a then PosInf else NegInf) else Num (a / b))"
| "js_div (Num a) _ = Num 0"
| "js_div PosInf (Num b) = (if b < 0 then NegInf else PosInf)"
| "js_div NegInf (Num b) = (if b < 0 then PosInf else NegInf)"
| "js_div _ _ = NaN"

text \<open>Truthiness of a number, as \<^verbatim>\<open>x || d\<close> tests it: zero and NaN are falsy.\<close>

fun truthyNum :: "jsnum \<Rightarrow> bool" where
  "truthyNum (Num a) = (a \<noteq> 0)"
| "truthyNum NaN = False"
| "truthyNum _ = True"

subsection \<open>Character classes\<close>

definition isDigit :: "nat \<Rightarrow> bool" where
  "isDigit c = (48 \<le> c \<and> c \<le> 57)"

definition isWordChar :: "nat \<Rightarrow> bool" where
  "isWordChar c = (isDigit c \<or> (65 \<le> c \<and> c \<le> 90) \<or> (97 \<le> c \<and> c \<le> 122) \<or> c = 95)"

definition isLineTerminator :: "nat \<Rightarrow> bool" where
  "isLineTerminator c = (c = 10 \<or> c = 13 \<or> c = 8232 \<or> c = 8233)"

definition isWhiteSpace :: "nat \<Rightarrow> bool" where
  "isWhiteSpace c = (c = 9 \<or> c = 11 \<or> c = 12 \<or> c = 32 \<or> c = 160 \<or> c = 5760 \<or>
     (8192 \<le> c \<and> c \<le> 8202) \<or> c = 8239 \<or> c = 8287 \<or> c = 12288 \<or> c = 65279)"

text \<open>\<^verbatim>\<open>\s\<close>, and the characters \<^verbatim>\<open>trim\<close> removes: white space and line terminators.\<close>

definition isSpace :: "nat \<Rightarrow> bool" where
  "isSpace c = (isWhiteSpace c \<or> isLineTerminator c)"

text \<open>
  Case folding of the \<^verbatim>\<open>i\<close> flag without the \<^verbatim>\<open>u\<close> flag. The patterns of this
  program contain ASCII characters only, and the language never folds a code unit of 128
  or more onto an ASCII one, so folding the ASCII letters is all that can make a match.
\<close>

definition canonicalize :: "nat \<Rightarrow> nat" where
  "canonicalize c = (if 97 \<le> c \<and> c \<le> 122 then c - 32 else c)"

definition trim :: "jsstring \<Rightarrow> jsstring" where
  "trim s = rev (dropWhile isSpace (rev (dropWhile isSpace s)))"

subsection \<open>parseFloat\<close>

text \<open>
  \<^verbatim>\<open>parseFloat\<close> skips leading white space and reads the longest prefix that is a
  decimal literal: an optional sign, then \<^verbatim>\<open>Infinity\<close>, or digits with an optional
  fraction and an optional exponent. No such prefix gives NaN.
\<close>

definition digitsValue :: "jsstring \<Rightarrow> nat" where
  "digitsValue ds = foldl (\<lambda>a d. 10 * a + (d - 48)) 0 ds"

definition pow10 :: "int \<Rightarrow> rat" where
  "pow10 e = (if 0 \<le> e then 10 ^ nat e else 1 / 10 ^ nat (- e))"

definition exponentPart :: "jsstring \<Rightarrow> int" where
  "exponentPart r =
     (case r of
        [] \<Rightarrow> 0
      | c # r1 \<Rightarrow>
          if c = 101 \<or> c = 69 then
            (case r1 of
               [] \<Rightarrow> 0
             | d # r2 \<Rightarrow>
                 if d = 43 then (if takeWhile isDigit r2 = [] then 0 else int (digitsValue (takeWhile isDigit r2)))
                 else if d = 45 then (if takeWhile isDigit r2 = [] then 0 else - int (digitsValue (takeWhile isDigit r2)))
                 else if takeWhile isDigit r1 = [] then 0 else int (digitsValue (takeWhile isDigit r1)))
          else 0)"

definition parseUnsigned :: "jsstring \<Rightarrow> jsnum" where
  "parseUnsigned r =
     (if take 8 r = js ''Infinity'' then PosInf
      else
        let ds1 = takeWhile isDigit r;
            r1 = dropWhile isDigit r;
            ds2 = (case r1 of [] \<Rightarrow> [] | c # r' \<Rightarrow> if c = 46 then takeWhile isDigit r' else []);
            r2 = (case r1 of [] \<Rightarrow> [] | c # r' \<Rightarrow> if c = 46 then dropWhile isDigit r' else r1)
        in if ds1 = [] \<and> ds2 = [] then NaN
           else Num (of_nat (digitsValue (ds1 @ ds2)) / 10 ^ length ds2 * pow10 (exponentPart r2)))"

definition parseFloat :: "jsstring \<Rightarrow> jsnum" where
  "parseFloat s =
     (case dropWhile isSpace s of
        [] \<Rightarrow> NaN
      | c # r \<Rightarrow>
          if c = 43 then parseUnsigned r
          else if c = 45 then js_neg (parseUnsigned r)
          else parseUnsigned (c # r))"

section \<open>Regular expressions\<close>

text \<open>
  The patterns of the program, as syntax trees, and the backtracking matcher of the
  language: alternatives are tried left to right, a greedy quantifier tries one more
  iteration before it tries to stop, a lazy one the other way round, and an iteration
  that consumes nothing is rejected. The continuation of a match is a stack of frames.
\<close>

datatype cclass = CDigit | CWord | CSpace | CNotSpace

fun inClass :: "cclass \<Rightarrow> nat \<Rightarrow> bool" where
  "inClass CDigit c = isDigit c"
| "inClass CWord c = isWordChar c"
| "inClass CSpace c = isSpace c"
| "inClass CNotSpace c = (\<not> isSpace c)"

datatype atom = Chr nat | Dot | Esc cclass | Bracket "cclass list"

datatype regex =
    Atom atom
  | Bol
  | WordBoundary
  | Empty
  | Seq regex regex
  | Alt regex regex
  | Star regex
  | LazyStar regex
  | Plus regex
  | Opt regex
  | Group nat regex

record flags =
  ignoreCase :: bool
  multiline :: bool

fun accepts :: "flags \<Rightarrow> atom \<Rightarrow> nat \<Rightarrow> bool" where
  "accepts f (Chr c) x = (if ignoreCase f then canonicalize x = canonicalize c else x = c)"
| "accepts f Dot x = (\<not> isLineTerminator x)"
| "accepts f (Esc k) x = inClass k x"
| "accepts f (Bracket ks) x = (\<exists>k \<in> set ks. inClass k x)"

text \<open>
  A matcher state: the code unit before the current position (none at the start of the
  input), the input from the current position on, the position, and the captures made so
  far (group, start, end), the latest first.
\<close>

datatype mstate =
  MState (prev: "nat option") (rest: jsstring) (pos: nat) (caps: "(nat \<times> nat \<times> nat) list")

datatype frame = R regex | LoopG nat regex | LoopL nat regex | Progress nat | Close nat nat

fun rsize :: "regex \<Rightarrow> nat" where
  "rsize (Seq a b) = 1 + rsize a + rsize b"
| "rsize (Alt a b) = 1 + rsize a + rsize b"
| "rsize (Star a) = 2 + rsize a"
| "rsize (LazyStar a) = 2 + rsize a"
| "rsize (Plus a) = 4 + 2 * rsize a"
| "rsize (Opt a) = 2 + rsize a"
| "rsize (Group i a) = 2 + rsize a"
| "rsize _ = 1"

fun fweight :: "nat \<Rightarrow> frame \<Rightarrow> nat" where
  "fweight q (R r) = rsize r"
| "fweight q (LoopG p a) = (if p < q then 3 + rsize a else 0)"
| "fweight q (LoopL p a) = (if p < q then 3 + rsize a else 0)"
| "fweight q (Progress p) = 1"
| "fweight q (Close i p) = 1"

definition isWordAt :: "nat option \<Rightarrow> bool" where
  "isWordAt c = (case c of None \<Rightarrow> False | Some x \<Rightarrow> isWordChar x)"

definition atLineStart :: "flags \<Rightarrow> nat option \<Rightarrow> bool" where
  "atLineStart f pv = (case pv of None \<Rightarrow> True | Some c \<Rightarrow> multiline f \<and> isLineTerminator c)"

definition atWordBoundary :: "nat option \<Rightarrow> jsstring \<Rightarrow> bool" where
  "atWordBoundary pv rs = (isWordAt pv \<noteq> isWordAt (case rs of [] \<Rightarrow> None | c # _ \<Rightarrow> Some c))"

function bt :: "flags \<Rightarrow> frame list \<Rightarrow> mstate \<Rightarrow> mstate option" where
  "bt f [] st = Some st"
| "bt f (R (Atom a) # k) (MState pv [] p cs) = None"
| "bt f (R (Atom a) # k) (MState pv (x # xs) p cs) =
     (if accepts f a x then bt f k (MState (Some x) xs (p + 1) cs) else None)"
| "bt f (R Bol # k) st = (if atLineStart f (prev st) then bt f k st else None)"
| "bt f (R WordBoundary # k) st =
     (if atWordBoundary (prev st) (rest st) then bt f k st else None)"
| "bt f (R Empty # k) st = bt f k st"
| "bt f (R (Seq a b) # k) st = bt f (R a # R b # k) st"
| "bt f (R (Alt a b) # k) st =
     (case bt f (R a # k) st of Some r \<Rightarrow> Some r | None \<Rightarrow> bt f (R b # k) st)"
| "bt f (R (Star a) # k) st =
     (case bt f (R a # LoopG (pos st) a # k) st of Some r \<Rightarrow> Some r | None \<Rightarrow> bt f k st)"
| "bt f (LoopG p a # k) st = (if p < pos st then bt f (R (Star a) # k) st else None)"
| "bt f (R (LazyStar a) # k) st =
     (case bt f k st of Some r \<Rightarrow> Some r | None \<Rightarrow> bt f (R a # LoopL (pos st) a # k) st)"
| "bt f (LoopL p a # k) st = (if p < pos st then bt f (R (LazyStar a) # k) st else None)"
| "bt f (R (Plus a) # k) st = bt f (R a # R (Star a) # k) st"
| "bt f (R (Opt a) # k) st =
     (case bt f (R a # Progress (pos st) # k) st of Some r \<Rightarrow> Some r | None \<Rightarrow> bt f k st)"
| "bt f (Progress p # k) st = (if p < pos st then bt f k st else None)"
| "bt f (R (Group i a) # k) st = bt f (R a # Close i (pos st) # k) st"
| "bt f (Close i p # k) st =
     bt f k (MState (prev st) (rest st) (pos st) ((i, p, pos st) # caps st))"
  by pat_completeness auto
termination
  by (relation "measures [\<lambda>(f, k, st). length (rest st),
                          \<lambda>(f, k, st). sum_list (map (fweight (pos st)) k)]") auto

text \<open>
  \<open>search\<close> is one \<^verbatim>\<open>exec\<close> from the start of the input: the leftmost position at
  which the pattern matches, with the state at the end of that match.
\<close>

primrec search :: "flags \<Rightarrow> regex \<Rightarrow> jsstring \<Rightarrow> nat option \<Rightarrow> nat \<Rightarrow> (nat \<times> mstate) option" where
  "search f r [] pv p =
     (case bt f [R r] (MState pv [] p []) of None \<Rightarrow> None | Some m \<Rightarrow> Some (p, m))"
| "search f r (c # cs) pv p =
     (case bt f [R r] (MState pv (c # cs) p []) of
        None \<Rightarrow> search f r cs (Some c) (p + 1)
      | Some m \<Rightarrow> Some (p, m))"

text \<open>
  \<open>scan\<close> is the loop of a global pattern (\<^verbatim>\<open>match\<close> with the \<^verbatim>\<open>g\<close> flag, or
  \<^verbatim>\<open>exec\<close> called until it returns null): every match in turn, each search starting
  where the match before it ended, one code unit further on after an empty match. The last
  argument counts the code units still to skip before the next search may start.
\<close>

primrec scan :: "flags \<Rightarrow> regex \<Rightarrow> jsstring \<Rightarrow> nat option \<Rightarrow> nat \<Rightarrow> nat \<Rightarrow> (nat \<times> mstate) list" where
  "scan f r [] pv p k =
     (if 0 < k then []
      else (case bt f [R r] (MState pv [] p []) of None \<Rightarrow> [] | Some m \<Rightarrow> [(p, m)]))"
| "scan f r (c # cs) pv p k =
     (if 0 < k then scan f r cs (Some c) (p + 1) (k - 1)
      else (case bt f [R r] (MState pv (c # cs) p []) of
              None \<Rightarrow> scan f r cs (Some c) (p + 1) 0
            | Some m \<Rightarrow> (p, m) # scan f r cs (Some c) (p + 1) (pos m - (p + 1))))"

record pattern =
  source :: regex
  pflags :: flags

definition test :: "pattern \<Rightarrow> jsstring \<Rightarrow> bool" where
  "test pt s = (search (pflags pt) (source pt) s None 0 \<noteq> None)"

definition matchAll :: "pattern \<Rightarrow> jsstring \<Rightarrow> (nat \<times> mstate) list" where
  "matchAll pt s = scan (pflags pt) (source pt) s None 0 0"

definition capture :: "jsstring \<Rightarrow> mstate \<Rightarrow> nat \<Rightarrow> jsstring" where
  "capture s m i = (case map_of (caps m) i of None \<Rightarrow> [] | Some (b, e) \<Rightarrow> take (e - b) (drop b s))"

subsection \<open>Pattern syntax\<close>

definition str :: "string \<Rightarrow> regex" where
  "str s = foldr (\<lambda>c r. Seq (Atom (Chr (of_char c))) r) s Empty"

definition seqs :: "regex list \<Rightarrow> regex" where
  "seqs rs = foldr Seq rs Empty"

fun alts :: "regex list \<Rightarrow> regex" where
  "alts [] = Empty"
| "alts [r] = r"
| "alts (r # rs) = Alt r (alts rs)"

abbreviation spc :: regex where "spc \<equiv> Atom (Esc CSpace)"
abbreviation dgt :: regex where "dgt \<equiv> Atom (Esc CDigit)"
abbreviation wrd :: regex where "wrd \<equiv> Atom (Esc CWord)"
abbreviation anyc :: regex where "anyc \<equiv> Atom (Bracket [CSpace, CNotSpace])"

definition plain :: flags where "plain = \<lparr>ignoreCase = False, multiline = False\<rparr>"
definition flag_i :: flags where "flag_i = \<lparr>ignoreCase = True, multiline = False\<rparr>"
definition flag_m :: flags where "flag_m = \<lparr>ignoreCase = False, multiline = True\<rparr>"

definition chr :: "char \<Rightarrow> regex" where
  "chr c = Atom (Chr (of_char c))"

section \<open>The quality gate (quality-gate.mjs)\<close>

subsection \<open>Data\<close>

text \<open>
  A response unit \<^verbatim>\<open>{ text, probability }\<close>; the field \<^verbatim>\<open>text\<close> is \<open>rtext\<close>
  here, as \<open>text\<close> is a keyword of the theory language.
\<close>

record response =
  rtext :: jsstring
  probability :: jsnum

datatype category =
  Xml | Completeness | Probability | Rubric | Structure | Injection | Formatting | Consistency | Schema

datatype severity = Info | Warning | Critical

text \<open>
  The message of an issue is a template literal of the source; it is kept as the template
  with the values interpolated into it, not as the rendered text.
\<close>

datatype message =
    ProbabilityOutOfRange nat jsnum
  | NonStandardFormat nat nat
  | RubricScoresFound nat nat
  | MissingTotalVariant nat
  | MissingTotal nat
  | NoPivot nat
  | InjectionArtifact nat regex
  | SuspiciouslyShort nat nat
  | UnusuallyLong nat nat
  | MismatchedTags nat nat
  | NoValidBlocks
  | OnlyResponses nat
  | ProbabilitySumExceeds jsnum
  | InconsistentStructure
  | SchemaMessage jsstring

record issue =
  category :: category
  severity :: severity
  message :: message

record quality_report =
  score :: rat
  issues :: "issue list"
  responses :: "response list"
  passesGate :: bool
  threshold :: rat

definition QUALITY_THRESHOLD :: rat where
  "QUALITY_THRESHOLD = 7 / 10"

subsection \<open>The patterns\<close>

definition responseRegex :: pattern where
  "responseRegex = \<lparr>source = seqs [str ''<response>'', Star spc, str ''<text>'',
       Group 1 (LazyStar anyc), str ''</text>'', Star spc, str ''<probability>'',
       Group 2 (LazyStar anyc), str ''</probability>'', Star spc, str ''</response>''],
     pflags = plain\<rparr>"

definition openTagRegex :: pattern where
  "openTagRegex = \<lparr>source = str ''<response>'', pflags = plain\<rparr>"

definition closeTagRegex :: pattern where
  "closeTagRegex = \<lparr>source = str ''</response>'', pflags = plain\<rparr>"

definition formatARegex :: pattern where
  "formatARegex = \<lparr>source = seqs [Bol, Plus dgt, chr CHR '')'', Plus spc, Plus (Atom Dot),
       chr CHR '':'', Plus spc, Plus dgt], pflags = flag_m\<rparr>"

definition formatBRegex :: pattern where
  "formatBRegex = \<lparr>source = seqs [WordBoundary, wrd, Plus (Atom (Bracket [CWord, CSpace])),
       chr CHR '':'', Plus spc, Plus dgt, Opt (str ''/10'')], pflags = flag_m\<rparr>"

definition totalRegex :: pattern where
  "totalRegex = \<lparr>source = seqs [str ''Total:'', Star spc, Group 1 (Plus dgt), str ''/100''],
     pflags = plain\<rparr>"

definition scoreTableRegex :: pattern where
  "scoreTableRegex = \<lparr>source = seqs [chr CHR ''|'', Star spc, Plus dgt, Star spc, chr CHR ''|''],
     pflags = plain\<rparr>"

definition pivotRegex :: pattern where
  "pivotRegex = \<lparr>source = alts [str ''pivot'', str ''alternative'', str ''reframe'',
       seqs [str ''high'', Atom Dot, str ''leverage''], str ''polar'',
       seqs [str ''how'', Plus spc, str ''it'', Plus spc, str ''works''], str ''integration''],
     pflags = flag_i\<rparr>"

definition injectionPatterns :: "pattern list" where
  "injectionPatterns =
     [\<lparr>source = seqs [WordBoundary, str ''system'', Star spc, chr CHR '':'', Star spc], pflags = flag_i\<rparr>,
      \<lparr>source = seqs [WordBoundary, str ''assistant'', Star spc, chr CHR '':'', Star spc], pflags = flag_i\<rparr>,
      \<lparr>source = seqs [WordBoundary, str ''ignore'', Plus spc,
         Group 1 (alts [str ''previous'', str ''above'', str ''all'']), Plus spc, str ''instructions''],
       pflags = flag_i\<rparr>,
      \<lparr>source = seqs [WordBoundary, str ''you'', Plus spc, str ''are'', Plus spc,
         Group 1 (alts [str ''now'', str ''a'']), WordBoundary], pflags = flag_i\<rparr>,
      \<lparr>source = seqs [WordBoundary, str ''do'', Plus spc, str ''not'', Plus spc, str ''follow''],
       pflags = flag_i\<rparr>,
      \<lparr>source = seqs [chr CHR ''<'', Opt (chr CHR ''/''),
         alts [str ''system'', str ''instruction'', str ''prompt''], chr CHR ''>''], pflags = flag_i\<rparr>]"

definition hasScoresRegex :: pattern where
  "hasScoresRegex = \<lparr>source = seqs [Bol, Plus dgt, chr CHR '')'', Plus spc], pflags = flag_m\<rparr>"

subsection \<open>parseResponses\<close>

text \<open>
  The loop calls \<^verbatim>\<open>exec\<close> on the global pattern until it returns null. Every match
  of the pattern contains the tags, so none is empty, and both groups take part in every
  match.
\<close>

definition parseResponses :: "jsstring \<Rightarrow> response list" where
  "parseResponses outputText =
     map (\<lambda>(p, m). \<lparr>rtext = trim (capture outputText m 1),
                      probability = parseFloat (trim (capture outputText m 2))\<rparr>)
       (matchAll responseRegex outputText)"

subsection \<open>scoreResponse\<close>

text \<open>
  The running pair of a score and the issues pushed so far; \<open>deduct\<close> is one
  \<^verbatim>\<open>issues.push(...); score -= d\<close>.
\<close>

type_synonym tally = "rat \<times> issue list"

definition deduct :: "issue \<Rightarrow> rat \<Rightarrow> tally \<Rightarrow> tally" where
  "deduct i d t = (fst t - d, snd t @ [i])"

definition probabilityCheck :: "response \<Rightarrow> nat \<Rightarrow> tally \<Rightarrow> tally" where
  "probabilityCheck r index t =
     (if js_isNaN (probability r) \<or> js_lt (probability r) (Num 0) \<or> js_gt (probability r) (Num 1)
      then deduct \<lparr>category = Probability, severity = Critical,
                   message = ProbabilityOutOfRange index (probability r)\<rparr> (3 / 10) t
      else t)"

definition formatA :: "jsstring \<Rightarrow> nat" where
  "formatA txt = length (matchAll formatARegex txt)"

definition formatB :: "jsstring \<Rightarrow> nat" where
  "formatB txt = length (matchAll formatBRegex txt)"

definition totalMatch :: "jsstring \<Rightarrow> bool" where
  "totalMatch txt = test totalRegex txt"

definition hasScoreTable :: "jsstring \<Rightarrow> nat" where
  "hasScoreTable txt = length (matchAll scoreTableRegex txt)"

definition bestScoreCount :: "jsstring \<Rightarrow> nat" where
  "bestScoreCount txt = max (max (formatA txt) (formatB txt)) (hasScoreTable txt)"

definition rubricCheck :: "jsstring \<Rightarrow> nat \<Rightarrow> tally \<Rightarrow> tally" where
  "rubricCheck txt index t =
     (if bestScoreCount txt < 5 \<and> \<not> totalMatch txt
      then deduct \<lparr>category = Rubric, severity = Info,
                   message = NonStandardFormat index (bestScoreCount txt)\<rparr> (5 / 100) t
      else if bestScoreCount txt < 10 \<and> 0 < formatA txt
      then deduct \<lparr>category = Rubric, severity = Warning,
                   message = RubricScoresFound index (formatA txt)\<rparr>
             (1 / 10 * (10 - of_nat (formatA txt)) / 10) t
      else t)"

definition totalCheck :: "jsstring \<Rightarrow> nat \<Rightarrow> tally \<Rightarrow> tally" where
  "totalCheck txt index t =
     (if \<not> totalMatch txt \<and> 5 \<le> bestScoreCount txt
      then deduct \<lparr>category = Rubric, severity = Info, message = MissingTotalVariant index\<rparr> (3 / 100) t
      else if \<not> totalMatch txt \<and> bestScoreCount txt < 5
      then deduct \<lparr>category = Rubric, severity = Warning, message = MissingTotal index\<rparr> (1 / 10) t
      else t)"

definition hasPivot :: "jsstring \<Rightarrow> bool" where
  "hasPivot txt = test pivotRegex txt"

definition pivotCheck :: "jsstring \<Rightarrow> nat \<Rightarrow> tally \<Rightarrow> tally" where
  "pivotCheck txt index t =
     (if \<not> hasPivot txt \<and> length txt < 300
      then deduct \<lparr>category = Structure, severity = Warning, message = NoPivot index\<rparr> (1 / 10) t
      else t)"

text \<open>The loop over the injection patterns stops at the first one that matches.\<close>

definition injectionCheck :: "jsstring \<Rightarrow> nat \<Rightarrow> tally \<Rightarrow> tally" where
  "injectionCheck txt index t =
     (case find (\<lambda>pt. test pt txt) injectionPatterns of
        None \<Rightarrow> t
      | Some pt \<Rightarrow> deduct \<lparr>category = Injection, severity = Critical,
                            message = InjectionArtifact index (source pt)\<rparr> (4 / 10) t)"

definition lengthCheck :: "jsstring \<Rightarrow> nat \<Rightarrow> tally \<Rightarrow> tally" where
  "lengthCheck txt index t =
     (let t1 = (if length txt < 100
                then deduct \<lparr>category = Formatting, severity = Warning,
                             message = SuspiciouslyShort index (length txt)\<rparr> (2 / 10) t
                else t)
      in if 10000 < length txt
         then deduct \<lparr>category = Formatting, severity = Warning,
                      message = UnusuallyLong index (length txt)\<rparr> (5 / 100) t1
         else t1)"

text \<open>The score and the issues of one response before the final \<^verbatim>\<open>Math.max(0, score)\<close>.\<close>

definition beforeInjection :: "response \<Rightarrow> nat \<Rightarrow> tally" where
  "beforeInjection r index =
     pivotCheck (rtext r) index (totalCheck (rtext r) index (rubricCheck (rtext r) index
       (probabilityCheck r index (1, []))))"

definition scoreTally :: "response \<Rightarrow> nat \<Rightarrow> tally" where
  "scoreTally r index =
     lengthCheck (rtext r) index (injectionCheck (rtext r) index (beforeInjection r index))"

definition scoreResponse :: "response \<Rightarrow> nat \<Rightarrow> tally" where
  "scoreResponse r index = (max 0 (fst (scoreTally r index)), snd (scoreTally r index))"

subsection \<open>qualityGate\<close>

definition openTags :: "jsstring \<Rightarrow> nat" where
  "openTags outputText = length (matchAll openTagRegex outputText)"

definition closeTags :: "jsstring \<Rightarrow> nat" where
  "closeTags outputText = length (matchAll closeTagRegex outputText)"

definition tagCheck :: "jsstring \<Rightarrow> tally \<Rightarrow> tally" where
  "tagCheck outputText t =
     (if openTags outputText \<noteq> closeTags outputText
      then deduct \<lparr>category = Xml, severity = Critical,
                   message = MismatchedTags (openTags outputText) (closeTags outputText)\<rparr> (3 / 10) t
      else t)"

definition countCheck :: "response list \<Rightarrow> tally \<Rightarrow> tally" where
  "countCheck rs t =
     (if length rs < 3
      then deduct \<lparr>category = Completeness, severity = Warning,
                   message = OnlyResponses (length rs)\<rparr> (15 / 100) t
      else t)"

definition probSum :: "response list \<Rightarrow> jsnum" where
  "probSum rs = foldl (\<lambda>sum r. js_add sum (probability r)) (Num 0) rs"

definition probSumCheck :: "response list \<Rightarrow> tally \<Rightarrow> tally" where
  "probSumCheck rs t =
     (if js_gt (probSum rs) (Num 1)
      then deduct \<lparr>category = Probability, severity = Critical,
                   message = ProbabilitySumExceeds (probSum rs)\<rparr> (2 / 10) t
      else t)"

definition responseScores :: "response list \<Rightarrow> tally list" where
  "responseScores rs = map (\<lambda>(r, i). scoreResponse r i) (zip rs [0..<length rs])"

definition avgResponseScore :: "response list \<Rightarrow> rat" where
  "avgResponseScore rs =
     foldl (\<lambda>sum r. sum + fst r) 0 (responseScores rs) / of_nat (length (responseScores rs))"

definition hasScoresFlags :: "response list \<Rightarrow> bool list" where
  "hasScoresFlags rs = map (\<lambda>r. test hasScoresRegex (rtext r)) rs"

definition consistencyCheck :: "response list \<Rightarrow> tally \<Rightarrow> tally" where
  "consistencyCheck rs t =
     (if \<not> list_all id (hasScoresFlags rs) \<and> list_ex id (hasScoresFlags rs)
      then deduct \<lparr>category = Consistency, severity = Warning, message = InconsistentStructure\<rparr>
             (1 / 10) t
      else t)"

text \<open>
  The document-level score \<^verbatim>\<open>totalScore\<close> and the list \<^verbatim>\<open>allIssues\<close> at the end
  of the checks, for an input with parsed responses \<open>rs\<close>.
\<close>

definition documentTally :: "jsstring \<Rightarrow> response list \<Rightarrow> tally" where
  "documentTally outputText rs =
     (let t4 = probSumCheck rs (countCheck rs (tagCheck outputText (1, [])));
          t5 = (fst t4, snd t4 @ concat (map snd (responseScores rs)))
      in consistencyCheck rs t5)"

definition compositeScore :: "jsstring \<Rightarrow> rat" where
  "compositeScore outputText =
     max 0 (min 1 (fst (documentTally outputText (parseResponses outputText)) * (4 / 10)
                   + avgResponseScore (parseResponses outputText) * (6 / 10)))"

text \<open>
  \<^verbatim>\<open>parseFloat(x.toFixed(3))\<close>: the multiple of a thousandth nearest to \<open>x\<close>, the
  larger one of two that are equally near.
\<close>

definition toFixed3 :: "rat \<Rightarrow> rat" where
  "toFixed3 x =
     (if x < 0 then - (of_int \<lfloor>- x * 1000 + 1 / 2\<rfloor> / 1000) else of_int \<lfloor>x * 1000 + 1 / 2\<rfloor> / 1000)"

definition qualityGate :: "jsstring \<Rightarrow> quality_report" where
  "qualityGate outputText =
     (if length (parseResponses outputText) = 0
      then \<lparr>score = 0,
            issues = snd (tagCheck outputText (1, []))
                     @ [\<lparr>category = Xml, severity = Critical, message = NoValidBlocks\<rparr>],
            responses = [], passesGate = False, threshold = QUALITY_THRESHOLD\<rparr>
      else \<lparr>score = toFixed3 (compositeScore outputText),
            issues = snd (documentTally outputText (parseResponses outputText)),
            responses = parseResponses outputText,
            passesGate = (QUALITY_THRESHOLD \<le> compositeScore outputText),
            threshold = QUALITY_THRESHOLD\<rparr>)"

section \<open>Experiments (prompt-schema.mjs)\<close>

datatype provider = MiniMax | OpenAI | Anthropic | OtherProvider jsstring

datatype error =
    ProviderError provider jsstring
  | MissingKey provider
  | UnknownProvider provider
  | SchemaError jsstring
  | NoVariants
  | TypeError

record prompt_config =
  vPromptId :: "jsstring option"
  vPromptVersion :: "jsstring option"
  vSystemPrompt :: "jsstring option"
  vModel :: "jsstring option"

text \<open>
  An output schema is an object of the caller with a \<^verbatim>\<open>validate\<close> method: it may
  throw, and its result has an \<^verbatim>\<open>issues\<close> array or none. Of a schema issue only the
  message is kept.
\<close>

type_synonym schema = "response list \<Rightarrow> error + jsstring list option"

text \<open>
  A variant: \<open>vid\<close>, \<open>vprovider\<close> and \<open>vthreshold\<close> are its fields
  \<^verbatim>\<open>id\<close>, \<^verbatim>\<open>provider\<close> and \<^verbatim>\<open>qualityThreshold\<close>; the fields of its prompt
  configuration carry a \<open>v\<close> as well. An absent field is \<open>None\<close>. In a metric sample
  \<open>mescalated\<close> is the field \<^verbatim>\<open>escalated\<close>; the time stamp is left out.
\<close>

record variant =
  vid :: jsstring
  vprovider :: provider
  weight :: "jsnum option"
  promptConfig :: "prompt_config option"
  outputSchema :: "schema option"
  vthreshold :: "rat option"

record metric =
  qualityScore :: rat
  mescalated :: bool
  schemaValid :: bool
  latencyMs :: rat
  tokenCount :: rat

text \<open>
  The metrics of an experiment are a \<^verbatim>\<open>Map\<close> from variant ids to sample lists, kept
  as an association list with distinct keys in insertion order.
\<close>

record ab_experiment =
  name :: jsstring
  variants :: "variant list"
  metrics :: "(jsstring \<times> metric list) list"

definition weightOr1 :: "variant \<Rightarrow> jsnum" where
  "weightOr1 v = (case weight v of None \<Rightarrow> Num 1 | Some w \<Rightarrow> if truthyNum w then w else Num 1)"

definition totalWeight :: "variant list \<Rightarrow> jsnum" where
  "totalWeight vs = foldl (\<lambda>sum v. js_add sum (weightOr1 v)) (Num 0) vs"

definition defineExperiment :: "jsstring \<Rightarrow> variant list \<Rightarrow> error + ab_experiment" where
  "defineExperiment nm vs =
     (if length vs = 0 then Inl NoVariants
      else Inr \<lparr>name = nm,
                variants = map (\<lambda>v. v\<lparr>weight := Some (js_div (weightOr1 v) (totalWeight vs))\<rparr>) vs,
                metrics = []\<rparr>)"

text \<open>
  \<open>selectVariant\<close> takes the value of \<^verbatim>\<open>Math.random()\<close> as an argument. A missing
  weight adds as NaN; with no variant at all the result is \<^verbatim>\<open>undefined\<close>.
\<close>

fun pick :: "rat \<Rightarrow> jsnum \<Rightarrow> variant list \<Rightarrow> variant option" where
  "pick rand cumulative [] = None"
| "pick rand cumulative (v # vs) =
     (if js_le (Num rand) (js_add cumulative (case weight v of None \<Rightarrow> NaN | Some w \<Rightarrow> w))
      then Some v
      else pick rand (js_add cumulative (case weight v of None \<Rightarrow> NaN | Some w \<Rightarrow> w)) vs)"

definition selectVariant :: "rat \<Rightarrow> ab_experiment \<Rightarrow> variant option" where
  "selectVariant rand e =
     (case pick rand (Num 0) (variants e) of
        Some v \<Rightarrow> Some v
      | None \<Rightarrow> if variants e = [] then None else Some (last (variants e)))"

definition validateOutput :: "variant \<Rightarrow> response list \<Rightarrow> error + (bool \<times> jsstring list)" where
  "validateOutput v output =
     (case outputSchema v of
        None \<Rightarrow> Inr (True, [])
      | Some validate \<Rightarrow>
          (case validate output of
             Inl err \<Rightarrow> Inl err
           | Inr None \<Rightarrow> Inr (True, [])
           | Inr (Some is) \<Rightarrow> Inr (False, is)))"

definition recordMetric :: "ab_experiment \<Rightarrow> jsstring \<Rightarrow> metric \<Rightarrow> ab_experiment" where
  "recordMetric e variantId m =
     e\<lparr>metrics :=
         map (\<lambda>(k, ms). if k = variantId then (k, ms @ [m]) else (k, ms))
           (if map_of (metrics e) variantId = None then metrics e @ [(variantId, [])]
            else metrics e)\<rparr>"

subsection \<open>getExperimentStats\<close>

text \<open>
  Of the aggregates, the ones \<open>pickWinner\<close> reads are modelled: the means and the
  escalation rate (not the minimum, the maximum and the percentiles). A variant without
  samples has the sample count and the weight only.
\<close>

record stats_detail =
  qualityMean :: rat
  escalationRate :: rat
  latencyMean :: rat
  tokensMean :: rat

record variant_stats =
  samples :: nat
  sweight :: "jsnum option"
  detail :: "stats_detail option"

definition avg :: "rat list \<Rightarrow> rat" where
  "avg arr = (if length arr \<noteq> 0 then foldl (+) 0 arr / of_nat (length arr) else 0)"

definition statsOf :: "ab_experiment \<Rightarrow> variant \<Rightarrow> variant_stats" where
  "statsOf e v =
     (let ms = (case map_of (metrics e) (vid v) of None \<Rightarrow> [] | Some m \<Rightarrow> m)
      in if length ms = 0 then \<lparr>samples = 0, sweight = weight v, detail = None\<rparr>
         else \<lparr>samples = length ms, sweight = weight v,
               detail = Some \<lparr>qualityMean = avg (map qualityScore ms),
                              escalationRate = of_nat (length (filter mescalated ms)) / of_nat (length ms),
                              latencyMean = avg (map latencyMs ms),
                              tokensMean = avg (map tokenCount ms)\<rparr>\<rparr>)"

text \<open>
  The statistics are the properties of an ordinary object. \<open>objSet\<close> is an assignment
  \<^verbatim>\<open>obj[k] = v\<close> of an object \<open>v\<close>, which for the key \<^verbatim>\<open>__proto__\<close> sets the
  prototype and makes no property; \<open>objectEntries\<close> is \<^verbatim>\<open>Object.entries\<close>, which
  lists the keys that are array indices first, in ascending order, and then the other keys
  in the order of their creation.
\<close>

definition objSet :: "(jsstring \<times> 'a) list \<Rightarrow> jsstring \<Rightarrow> 'a \<Rightarrow> (jsstring \<times> 'a) list" where
  "objSet obj k v =
     (if k = js ''__proto__'' then obj
      else if map_of obj k = None then obj @ [(k, v)]
      else map (\<lambda>(k', v'). if k' = k then (k', v) else (k', v')) obj)"

definition isArrayIndex :: "jsstring \<Rightarrow> bool" where
  "isArrayIndex k =
     (k \<noteq> [] \<and> list_all isDigit k \<and> (length k = 1 \<or> hd k \<noteq> 48) \<and> digitsValue k < 2 ^ 32 - 1)"

definition objectEntries :: "(jsstring \<times> 'a) list \<Rightarrow> (jsstring \<times> 'a) list" where
  "objectEntries obj =
     sort_key (\<lambda>(k, v). digitsValue k) (filter (\<lambda>(k, v). isArrayIndex k) obj)
     @ filter (\<lambda>(k, v). \<not> isArrayIndex k) obj"

definition getExperimentStats :: "ab_experiment \<Rightarrow> (jsstring \<times> variant_stats) list" where
  "getExperimentStats e = foldl (\<lambda>stats v. objSet stats (vid v) (statsOf e v)) [] (variants e)"

subsection \<open>pickWinner\<close>


record options =
  minSamples :: "rat option"
  optimizeFor :: "jsstring option"


definition minSamplesOf :: "options \<Rightarrow> rat" where
  "minSamplesOf opts = (case minSamples opts of None \<Rightarrow> 5 | Some n \<Rightarrow> n)"

definition optimizeForOf :: "options \<Rightarrow> jsstring" where
  "optimizeForOf opts = (case optimizeFor opts of None \<Rightarrow> js ''quality'' | Some m \<Rightarrow> m)"

definition eligible :: "ab_experiment \<Rightarrow> options \<Rightarrow> (jsstring \<times> variant_stats) list" where
  "eligible e opts =
     filter (\<lambda>(i, s). minSamplesOf opts \<le> of_nat (samples s)) (objectEntries (getExperimentStats e))"






section \<open>The router (router.mjs)\<close>

record usage =
  input_tokens :: nat
  output_tokens :: nat
  total_tokens :: nat

text \<open>
  What a provider adapter returns. The reasoning summary and the raw payload are opaque
  data of the provider and are left out, as is all wall-clock timing.
\<close>

record provider_result =
  outputText :: jsstring
  model :: jsstring
  usage :: usage

text \<open>
  The network is a parameter: for the idea and the request made, the reply of the
  provider, which is a result or a thrown error.
\<close>

datatype request =
    OpenAIRequest jsstring jsstring
  | AnthropicRequest jsstring "jsstring option"
  | MiniMaxRequest "jsstring option" "jsstring option"

type_synonym network = "jsstring \<Rightarrow> request \<Rightarrow> error + provider_result"

record router_config =
  openaiKey :: jsstring
  anthropicKey :: "jsstring option"
  minimaxKey :: "jsstring option"
  promptId :: jsstring
  promptVersion :: "jsstring option"
  qualityThreshold :: "rat option"
  allowEscalation :: "bool option"

definition truthy :: "jsstring option \<Rightarrow> bool" where
  "truthy k = (case k of None \<Rightarrow> False | Some s \<Rightarrow> s \<noteq> [])"

definition promptVersionOf :: "router_config \<Rightarrow> jsstring" where
  "promptVersionOf cfg = (case promptVersion cfg of None \<Rightarrow> js ''3'' | Some v \<Rightarrow> v)"

definition qualityThresholdOf :: "router_config \<Rightarrow> rat" where
  "qualityThresholdOf cfg = (case qualityThreshold cfg of None \<Rightarrow> 7 / 10 | Some t \<Rightarrow> t)"

definition allowEscalationOf :: "router_config \<Rightarrow> bool" where
  "allowEscalationOf cfg = (case allowEscalation cfg of None \<Rightarrow> True | Some b \<Rightarrow> b)"

definition opusModel :: jsstring where
  "opusModel = js ''claude-opus-4-20250514''"

definition callOpenAI :: "router_config \<Rightarrow> network \<Rightarrow> jsstring \<Rightarrow> error + provider_result" where
  "callOpenAI cfg net idea = net idea (OpenAIRequest (promptId cfg) (promptVersionOf cfg))"

definition callAnthropic :: "router_config \<Rightarrow> network \<Rightarrow> jsstring \<Rightarrow> error + provider_result" where
  "callAnthropic cfg net idea =
     (if \<not> truthy (anthropicKey cfg) then Inl (MissingKey Anthropic)
      else net idea (AnthropicRequest opusModel None))"

definition callMiniMax :: "network \<Rightarrow> jsstring \<Rightarrow> jsstring option \<Rightarrow> jsstring option
    \<Rightarrow> jsstring option \<Rightarrow> error + provider_result" where
  "callMiniMax net idea apiKey mdl systemPrompt =
     (if \<not> truthy apiKey then Inl (MissingKey MiniMax)
      else net idea (MiniMaxRequest mdl systemPrompt))"

datatype reason = ReasonTexts "jsstring list" | ReasonIssues "issue list"

datatype usage_report =
    OneUsage usage
  | UsageLog "(provider \<times> usage) list"
  | ExperimentUsage usage usage

text \<open>
  The result of an evaluation: \<open>res_model\<close>, \<open>res_responses\<close>, \<open>res_issues\<close> and
  \<open>res_usage\<close> are its fields \<^verbatim>\<open>model\<close>, \<^verbatim>\<open>responses\<close>, \<^verbatim>\<open>issues\<close> and
  \<^verbatim>\<open>usage\<close>. The usage is that of one call, the log of the calls made by
  \<open>evaluate\<close>, or the pair that \<open>evaluateWithExperiment\<close> builds after a fallback.
\<close>

record evaluation_result =
  provider :: provider
  res_model :: jsstring
  quality :: rat
  escalated :: bool
  escalationReason :: "reason option"
  res_responses :: "response list"
  res_issues :: "issue list"
  res_usage :: usage_report

subsection \<open>evaluate\<close>

text \<open>
  Tier 1 either returns the result of MiniMax or falls through to tier 2, with the usage
  of MiniMax in the log when its call returned. The \<^verbatim>\<open>catch\<close> of this tier turns an
  error of the call into a fall through.
\<close>

datatype tier1_outcome = Served evaluation_result | Escalate "usage option"

definition tier1 :: "router_config \<Rightarrow> network \<Rightarrow> jsstring \<Rightarrow> tier1_outcome" where
  "tier1 cfg net idea =
     (if truthy (minimaxKey cfg) then
        (case callMiniMax net idea (minimaxKey cfg) None None of
           Inl err \<Rightarrow> Escalate None
         | Inr mm \<Rightarrow>
             if passesGate (qualityGate (outputText mm)) \<or> \<not> allowEscalationOf cfg
             then Served \<lparr>provider = MiniMax, res_model = model mm,
                    quality = score (qualityGate (outputText mm)), escalated = False,
                    escalationReason = None,
                    res_responses = responses (qualityGate (outputText mm)),
                    res_issues = issues (qualityGate (outputText mm)),
                    res_usage = OneUsage (usage mm)\<rparr>
             else Escalate (Some (usage mm)))
      else Escalate None)"

definition usageLog :: "usage option \<Rightarrow> usage \<Rightarrow> (provider \<times> usage) list" where
  "usageLog mmUsage u = (case mmUsage of None \<Rightarrow> [] | Some m \<Rightarrow> [(MiniMax, m)]) @ [(OpenAI, u)]"

definition evaluate :: "router_config \<Rightarrow> network \<Rightarrow> jsstring \<Rightarrow> error + evaluation_result" where
  "evaluate cfg net idea =
     (case tier1 cfg net idea of
        Served res \<Rightarrow> Inr res
      | Escalate mmUsage \<Rightarrow>
          (case callOpenAI cfg net idea of
             Inl err \<Rightarrow> Inl err
           | Inr primary \<Rightarrow>
               if passesGate (qualityGate (outputText primary)) \<or> \<not> allowEscalationOf cfg
               then Inr \<lparr>provider = OpenAI, res_model = model primary,
                      quality = score (qualityGate (outputText primary)),
                      escalated = truthy (minimaxKey cfg),
                      escalationReason =
                        (if truthy (minimaxKey cfg)
                         then Some (ReasonTexts [js ''MiniMax failed quality gate'']) else None),
                      res_responses = responses (qualityGate (outputText primary)),
                      res_issues = issues (qualityGate (outputText primary)),
                      res_usage =
                        (if 1 < length (usageLog mmUsage (usage primary))
                         then UsageLog (usageLog mmUsage (usage primary))
                         else OneUsage (usage primary))\<rparr>
               else
                 (case callAnthropic cfg net idea of
                    Inl err \<Rightarrow> Inl err
                  | Inr fallback \<Rightarrow>
                      Inr \<lparr>provider = Anthropic, res_model = model fallback,
                        quality = score (qualityGate (outputText fallback)),
                        escalated = True,
                        escalationReason =
                          Some (ReasonIssues (issues (qualityGate (outputText primary)))),
                        res_responses = responses (qualityGate (outputText fallback)),
                        res_issues = issues (qualityGate (outputText fallback)),
                        res_usage = UsageLog (usageLog mmUsage (usage primary)
                                              @ [(Anthropic, usage fallback)])\<rparr>)))"

text \<open>The call of the Anthropic tier is reached: no earlier tier returned or threw.\<close>

definition reachesAnthropic :: "router_config \<Rightarrow> network \<Rightarrow> jsstring \<Rightarrow> bool" where
  "reachesAnthropic cfg net idea =
     (case tier1 cfg net idea of
        Served res \<Rightarrow> False
      | Escalate mmUsage \<Rightarrow>
          (case callOpenAI cfg net idea of
             Inl err \<Rightarrow> False
           | Inr primary \<Rightarrow>
               \<not> (passesGate (qualityGate (outputText primary)) \<or> \<not> allowEscalationOf cfg)))"

subsection \<open>evaluateWithExperiment\<close>

record experiment_result = evaluation_result +
  variantId :: jsstring
  schemaValidated :: bool

definition orElse :: "jsstring option \<Rightarrow> jsstring \<Rightarrow> jsstring" where
  "orElse a b = (if truthy a then the a else b)"

definition configOf :: "variant \<Rightarrow> prompt_config" where
  "configOf v =
     (case promptConfig v of
        None \<Rightarrow> \<lparr>vPromptId = None, vPromptVersion = None, vSystemPrompt = None, vModel = None\<rparr>
      | Some c \<Rightarrow> c)"

definition callVariant :: "router_config \<Rightarrow> network \<Rightarrow> jsstring \<Rightarrow> variant
    \<Rightarrow> error + provider_result" where
  "callVariant cfg net idea v =
     (case vprovider v of
        OpenAI \<Rightarrow>
          net idea (OpenAIRequest (orElse (vPromptId (configOf v)) (promptId cfg))
                                  (orElse (vPromptVersion (configOf v)) (promptVersionOf cfg)))
      | Anthropic \<Rightarrow>
          (case callAnthropic cfg net idea of
             Inl err \<Rightarrow> Inl err
           | Inr primary \<Rightarrow>
               if truthy (vSystemPrompt (configOf v))
               then net idea (AnthropicRequest (orElse (vModel (configOf v)) opusModel)
                                               (vSystemPrompt (configOf v)))
               else Inr primary)
      | MiniMax \<Rightarrow>
          callMiniMax net idea (minimaxKey cfg) (vModel (configOf v)) (vSystemPrompt (configOf v))
      | OtherProvider p \<Rightarrow> Inl (UnknownProvider (OtherProvider p)))"

definition thresholdOf :: "router_config \<Rightarrow> variant \<Rightarrow> rat" where
  "thresholdOf cfg v =
     (case vthreshold v of
        None \<Rightarrow> qualityThresholdOf cfg
      | Some t \<Rightarrow> if t \<noteq> 0 then t else qualityThresholdOf cfg)"

text \<open>
  Step 3: the schema is consulted when the variant has one and the gate parsed a
  response; issues of a failed validation are pushed onto the issues of the gate.
\<close>

definition schemaStep :: "variant \<Rightarrow> quality_report \<Rightarrow> error + (bool \<times> issue list)" where
  "schemaStep v gate =
     (if outputSchema v \<noteq> None \<and> 0 < length (responses gate) then
        (case validateOutput v (responses gate) of
           Inl err \<Rightarrow> Inl err
         | Inr (valid, is) \<Rightarrow>
             Inr (valid,
                  if \<not> valid
                  then issues gate @ map (\<lambda>i. \<lparr>category = Schema, severity = Warning,
                                               message = SchemaMessage i\<rparr>) is
                  else issues gate))
      else Inr (True, issues gate))"

definition tokensOf :: "usage_report \<Rightarrow> rat" where
  "tokensOf u =
     (case u of
        OneUsage a \<Rightarrow> of_nat (total_tokens a)
      | ExperimentUsage a b \<Rightarrow> of_nat (total_tokens a) + of_nat (total_tokens b)
      | UsageLog l \<Rightarrow> 0)"

text \<open>
  \<open>rand\<close> is the value of \<^verbatim>\<open>Math.random()\<close> and \<open>elapsed\<close> the measured total
  time. The result comes with the experiment after the metric is recorded.
\<close>

definition evaluateWithExperiment :: "router_config \<Rightarrow> network \<Rightarrow> rat \<Rightarrow> rat \<Rightarrow> jsstring
    \<Rightarrow> ab_experiment \<Rightarrow> error + (experiment_result \<times> ab_experiment)" where
  "evaluateWithExperiment cfg net rand elapsed idea e =
     (case selectVariant rand e of
        None \<Rightarrow> Inl TypeError
      | Some v \<Rightarrow>
          (case callVariant cfg net idea v of
             Inl err \<Rightarrow> Inl err
           | Inr primary \<Rightarrow>
               (case schemaStep v (qualityGate (outputText primary)) of
                  Inl err \<Rightarrow> Inl err
                | Inr (valid, gateIssues) \<Rightarrow>
                    if thresholdOf cfg v \<le> score (qualityGate (outputText primary))
                       \<or> \<not> allowEscalationOf cfg
                    then
                      Inr (\<lparr>provider = vprovider v, res_model = model primary,
                             quality = score (qualityGate (outputText primary)),
                             escalated = False, escalationReason = None,
                             res_responses = responses (qualityGate (outputText primary)),
                             res_issues = gateIssues,
                             res_usage = OneUsage (usage primary),
                             variantId = vid v, schemaValidated = valid\<rparr>,
                           recordMetric e (vid v)
                             \<lparr>qualityScore = score (qualityGate (outputText primary)),
                              mescalated = False, schemaValid = valid, latencyMs = elapsed,
                              tokenCount = tokensOf (OneUsage (usage primary))\<rparr>)
                    else
                      (case callAnthropic cfg net idea of
                         Inl err \<Rightarrow> Inl err
                       | Inr fallback \<Rightarrow>
                           Inr (\<lparr>provider = Anthropic, res_model = model fallback,
                                  quality = score (qualityGate (outputText fallback)),
                                  escalated = True,
                                  escalationReason = Some (ReasonIssues gateIssues),
                                  res_responses = responses (qualityGate (outputText fallback)),
                                  res_issues = issues (qualityGate (outputText fallback)),
                                  res_usage = ExperimentUsage (usage primary) (usage fallback),
                                  variantId = vid v, schemaValidated = valid\<rparr>,
                                recordMetric e (vid v)
                                  \<lparr>qualityScore = score (qualityGate (outputText fallback)),
                                   mescalated = True, schemaValid = valid, latencyMs = elapsed,
                                   tokenCount = tokensOf (ExperimentUsage (usage primary)
                                                                          (usage fallback))\<rparr>)))))"

section \<open>Sample inputs\<close>

text \<open>Provider outputs: \<open>block t p\<close> is one well-formed response block.\<close>

definition block :: "jsstring \<Rightarrow> jsstring \<Rightarrow> jsstring" where
  "block t p = js ''<response><text>'' @ t @ js ''</text><probability>'' @ p
               @ js ''</probability></response>''"

definition xText :: jsstring where
  "xText = js ''x''"

definition numberedText :: jsstring where
  "numberedText = js (''1) a: 1'' @ [CHR 0x0A] @ ''2) a: 1'' @ [CHR 0x0A] @ ''3) a: 1''
                      @ [CHR 0x0A] @ ''Total: 5/100'')"

definition singleText :: jsstring where
  "singleText = block xText (js ''0'')"

definition boundaryText :: jsstring where
  "boundaryText = block xText (js ''0'') @ block xText (js ''0'') @ block xText (js ''0'')
                  @ block xText (js ''0'') @ block numberedText (js ''0'')"

definition openOnlyText :: jsstring where
  "openOnlyText = js ''<response>''"


definition nanText :: jsstring where
  "nanText = block xText (js ''0.9'') @ block xText (js ''0.9'') @ block xText (js ''abc'')"

definition injectedResponse :: response where
  "injectedResponse = \<lparr>rtext = js ''system: hi'', probability = Num 0\<rparr>"

text \<open>Router configurations and networks.\<close>

definition reply :: "jsstring \<Rightarrow> provider_result" where
  "reply txt = \<lparr>outputText = txt, model = js ''m'',
                usage = \<lparr>input_tokens = 1, output_tokens = 1, total_tokens = 2\<rparr>\<rparr>"

definition twoTierConfig :: router_config where
  "twoTierConfig = \<lparr>openaiKey = js ''ko'', anthropicKey = Some (js ''ka''), minimaxKey = None,
     promptId = js ''p'', promptVersion = None, qualityThreshold = None,
     allowEscalation = None\<rparr>"

definition threeTierConfig :: router_config where
  "threeTierConfig = twoTierConfig\<lparr>minimaxKey := Some (js ''km'')\<rparr>"

definition lowThresholdConfig :: router_config where
  "lowThresholdConfig = twoTierConfig\<lparr>qualityThreshold := Some (1 / 2)\<rparr>"

text \<open>OpenAI answers with the given text; Anthropic answers with an empty text.\<close>

definition openaiSays :: "jsstring \<Rightarrow> network" where
  "openaiSays txt idea req =
     (case req of
        OpenAIRequest pid ver \<Rightarrow> Inr (reply txt)
      | AnthropicRequest m sp \<Rightarrow> Inr (reply [])
      | MiniMaxRequest m sp \<Rightarrow> Inl (ProviderError MiniMax (js ''down'')))"

text \<open>MiniMax and OpenAI are unreachable; Anthropic answers.\<close>

definition onlyAnthropicUp :: network where
  "onlyAnthropicUp idea req =
     (case req of
        OpenAIRequest pid ver \<Rightarrow> Inl (ProviderError OpenAI (js ''down''))
      | AnthropicRequest m sp \<Rightarrow> Inr (reply [])
      | MiniMaxRequest m sp \<Rightarrow> Inl (ProviderError MiniMax (js ''down'')))"

text \<open>Experiments.\<close>

definition openaiVariant :: variant where
  "openaiVariant = \<lparr>vid = js ''v'', vprovider = OpenAI, weight = Some (Num 1),
     promptConfig = None, outputSchema = None, vthreshold = Some (7 / 10)\<rparr>"

definition oneVariant :: ab_experiment where
  "oneVariant = \<lparr>name = js ''e'', variants = [openaiVariant], metrics = []\<rparr>"

definition goodVariant :: variant where
  "goodVariant = \<lparr>vid = js ''good'', vprovider = OpenAI, weight = Some (Num (1 / 2)),
     promptConfig = None, outputSchema = None, vthreshold = None\<rparr>"

definition badVariant :: variant where
  "badVariant = \<lparr>vid = js ''bad'', vprovider = Anthropic, weight = Some (Num (1 / 2)),
     promptConfig = None, outputSchema = None, vthreshold = None\<rparr>"



definition noSamples :: ab_experiment where
  "noSamples = \<lparr>name = js ''e'', variants = [goodVariant, badVariant], metrics = []\<rparr>"



definition zeroOptions :: options where
  "zeroOptions = \<lparr>minSamples = Some 0, optimizeFor = None\<rparr>"

section \<open>Properties of the quality gate\<close>

subsection \<open>The checks, one by one\<close>

lemma fst_deduct: "fst (deduct i d t) = fst t - d"
  by (simp add: deduct_def)

lemma snd_deduct: "snd (deduct i d t) = snd t @ [i]"
  by (simp add: deduct_def)


lemma snd_consistencyCheck_mono: "set (snd t) \<subseteq> set (snd (consistencyCheck rs t))"
  by (auto simp: consistencyCheck_def snd_deduct)

lemma qualityGate_empty_parse:
  "parseResponses raw = [] \<Longrightarrow>
   qualityGate raw = \<lparr>score = 0,
      issues = snd (tagCheck raw (1, [])) @ [\<lparr>category = Xml, severity = Critical, message = NoValidBlocks\<rparr>],
      responses = [], passesGate = False, threshold = QUALITY_THRESHOLD\<rparr>"
  by (simp add: qualityGate_def)

lemma inj_probabilityCheck: "filter (\<lambda>i. category i = Injection) (snd (probabilityCheck r n t)) = filter (\<lambda>i. category i = Injection) (snd t)"
  by (simp add: probabilityCheck_def snd_deduct)

lemma inj_rubricCheck: "filter (\<lambda>i. category i = Injection) (snd (rubricCheck x n t)) = filter (\<lambda>i. category i = Injection) (snd t)"
  by (simp add: rubricCheck_def snd_deduct)

lemma inj_totalCheck: "filter (\<lambda>i. category i = Injection) (snd (totalCheck x n t)) = filter (\<lambda>i. category i = Injection) (snd t)"
  by (simp add: totalCheck_def snd_deduct)

lemma inj_pivotCheck: "filter (\<lambda>i. category i = Injection) (snd (pivotCheck x n t)) = filter (\<lambda>i. category i = Injection) (snd t)"
  by (simp add: pivotCheck_def snd_deduct)

lemma inj_lengthCheck: "filter (\<lambda>i. category i = Injection) (snd (lengthCheck x n t)) = filter (\<lambda>i. category i = Injection) (snd t)"
  by (simp add: lengthCheck_def Let_def snd_deduct)

lemma inj_beforeInjection: "filter (\<lambda>i. category i = Injection) (snd (beforeInjection r n)) = []"
  by (simp add: beforeInjection_def inj_pivotCheck inj_totalCheck inj_rubricCheck inj_probabilityCheck)

lemma fst_probabilityCheck_le: "fst (probabilityCheck r n t) \<le> fst t"
  by (simp add: probabilityCheck_def fst_deduct)

lemma formatA_le_best: "formatA x \<le> bestScoreCount x"
  by (simp add: bestScoreCount_def)

lemma fst_rubricCheck_le: "fst (rubricCheck x n t) \<le> fst t"
proof -
  have "bestScoreCount x < 10 \<Longrightarrow> (0::rat) \<le> 1 / 10 * (10 - of_nat (formatA x)) / 10"
  proof -
    assume "bestScoreCount x < 10"
    then have "formatA x \<le> 10" using formatA_le_best [of x] by simp
    then have "(of_nat (formatA x) :: rat) \<le> 10" by (metis of_nat_le_iff of_nat_numeral)
    then show ?thesis by simp
  qed
  then show ?thesis by (auto simp: rubricCheck_def fst_deduct)
qed

lemma fst_totalCheck_le: "fst (totalCheck x n t) \<le> fst t"
  by (simp add: totalCheck_def fst_deduct)

lemma fst_pivotCheck_le: "fst (pivotCheck x n t) \<le> fst t"
  by (simp add: pivotCheck_def fst_deduct)

lemma fst_lengthCheck_le: "fst (lengthCheck x n t) \<le> fst t"
  by (simp add: lengthCheck_def Let_def fst_deduct)

lemma fst_beforeInjection_le: "fst (beforeInjection r n) \<le> 1"
proof -
  have "fst (beforeInjection r n) \<le> fst (totalCheck (rtext r) n (rubricCheck (rtext r) n (probabilityCheck r n (1, []))))"
    unfolding beforeInjection_def by (rule fst_pivotCheck_le)
  also have "\<dots> \<le> fst (rubricCheck (rtext r) n (probabilityCheck r n (1, [])))"
    by (rule fst_totalCheck_le)
  also have "\<dots> \<le> fst (probabilityCheck r n (1, []))"
    by (rule fst_rubricCheck_le)
  also have "\<dots> \<le> fst ((1, []) :: tally)"
    by (rule fst_probabilityCheck_le)
  finally show ?thesis by simp
qed

lemma find_SomeD: "find P xs = Some x \<Longrightarrow> P x \<and> x \<in> set xs"
  by (induction xs) (auto split: if_splits)

lemma find_injection:
  assumes "\<exists>pt \<in> set injectionPatterns. test pt x"
  shows "\<exists>pt. find (\<lambda>pt. test pt x) injectionPatterns = Some pt \<and> pt \<in> set injectionPatterns \<and> test pt x"
proof -
  from assms have "find (\<lambda>pt. test pt x) injectionPatterns \<noteq> None"
    by (auto simp: find_None_iff)
  then obtain pt where f: "find (\<lambda>pt. test pt x) injectionPatterns = Some pt" by auto
  from find_SomeD [OF f] f show ?thesis by blast
qed

lemma foldl_add_NaN: "foldl (\<lambda>sum r. js_add sum (probability r)) NaN rs = NaN"
  by (induction rs) simp_all

lemma js_add_NaN_right: "js_add a NaN = NaN"
  by (cases a) simp_all

lemma foldl_add_has_NaN:
  "r \<in> set rs \<Longrightarrow> probability r = NaN \<Longrightarrow> foldl (\<lambda>sum r. js_add sum (probability r)) a rs = NaN"
proof (induction rs arbitrary: a)
  case Nil
  then show ?case by simp
next
  case (Cons x xs)
  show ?case
  proof (cases "x = r")
    case True
    with Cons.prems show ?thesis by (simp add: js_add_NaN_right foldl_add_NaN)
  next
    case False
    with Cons.prems have "r \<in> set xs" by simp
    from Cons.IH [OF this Cons.prems(2)] show ?thesis by simp
  qed
qed

lemma probSum_NaN: "r \<in> set rs \<Longrightarrow> probability r = NaN \<Longrightarrow> probSum rs = NaN"
  by (simp add: probSum_def foldl_add_has_NaN)

lemma scoreTally_issues:
  assumes p: "Q \<lparr>category = Probability, severity = Critical,
                 message = ProbabilityOutOfRange n (probability r)\<rparr>"
    and o: "\<And>x. category x \<in> {Rubric, Structure, Injection, Formatting}
              \<Longrightarrow> (\<forall>s. message x \<noteq> ProbabilitySumExceeds s) \<Longrightarrow> Q x"
  shows "\<forall>x \<in> set (snd (scoreTally r n)). Q x"
proof -
  have 1: "\<forall>x \<in> set (snd (probabilityCheck r n (1, []))). Q x"
    by (simp add: probabilityCheck_def snd_deduct p)
  have 2: "\<And>t. \<forall>x \<in> set (snd t). Q x \<Longrightarrow> \<forall>x \<in> set (snd (rubricCheck (rtext r) n t)). Q x"
    by (simp add: rubricCheck_def snd_deduct o)
  have 3: "\<And>t. \<forall>x \<in> set (snd t). Q x \<Longrightarrow> \<forall>x \<in> set (snd (totalCheck (rtext r) n t)). Q x"
    by (simp add: totalCheck_def snd_deduct o)
  have 4: "\<And>t. \<forall>x \<in> set (snd t). Q x \<Longrightarrow> \<forall>x \<in> set (snd (pivotCheck (rtext r) n t)). Q x"
    by (simp add: pivotCheck_def snd_deduct o)
  have 5: "\<And>t. \<forall>x \<in> set (snd t). Q x \<Longrightarrow> \<forall>x \<in> set (snd (injectionCheck (rtext r) n t)). Q x"
    by (simp add: injectionCheck_def snd_deduct o split: option.splits)
  have 6: "\<And>t. \<forall>x \<in> set (snd t). Q x \<Longrightarrow> \<forall>x \<in> set (snd (lengthCheck (rtext r) n t)). Q x"
    by (simp add: lengthCheck_def Let_def snd_deduct o)
  show ?thesis
    unfolding scoreTally_def beforeInjection_def
    by (intro 6 5 4 3 2 1)
qed

lemma responseScores_issues:
  assumes "x \<in> set (concat (map snd (responseScores rs)))"
  shows "\<exists>r n. x \<in> set (snd (scoreTally r n))"
proof -
  from assms obtain t where "t \<in> set (responseScores rs)" and "x \<in> set (snd t)"
    by auto
  then obtain r n where "t = scoreResponse r n"
    by (auto simp: responseScores_def)
  with \<open>x \<in> set (snd t)\<close> have "x \<in> set (snd (scoreTally r n))"
    by (simp add: scoreResponse_def)
  then show ?thesis by blast
qed

lemma document_issue_cases:
  assumes "x \<in> set (snd (documentTally raw rs))"
  shows "x \<in> set (snd (probSumCheck rs (countCheck rs (tagCheck raw (1, [])))))
         \<or> (\<exists>r n. x \<in> set (snd (scoreTally r n)))
         \<or> x = \<lparr>category = Consistency, severity = Warning, message = InconsistentStructure\<rparr>"
proof -
  have "x \<in> set (snd (probSumCheck rs (countCheck rs (tagCheck raw (1, [])))))
        \<or> x \<in> set (concat (map snd (responseScores rs)))
        \<or> x = \<lparr>category = Consistency, severity = Warning, message = InconsistentStructure\<rparr>"
    using assms by (auto simp: documentTally_def Let_def consistencyCheck_def snd_deduct split: if_splits)
  then show ?thesis using responseScores_issues by blast
qed

lemma mono_rubricCheck: "set (snd t) \<subseteq> set (snd (rubricCheck x n t))"
  by (auto simp: rubricCheck_def snd_deduct)

lemma mono_totalCheck: "set (snd t) \<subseteq> set (snd (totalCheck x n t))"
  by (auto simp: totalCheck_def snd_deduct)

lemma mono_pivotCheck: "set (snd t) \<subseteq> set (snd (pivotCheck x n t))"
  by (auto simp: pivotCheck_def snd_deduct)

lemma mono_injectionCheck: "set (snd t) \<subseteq> set (snd (injectionCheck x n t))"
  by (auto simp: injectionCheck_def snd_deduct split: option.splits)

lemma mono_lengthCheck: "set (snd t) \<subseteq> set (snd (lengthCheck x n t))"
  by (auto simp: lengthCheck_def Let_def snd_deduct)

lemma NaN_issue_scoreTally:
  assumes "probability r = NaN"
  shows "\<lparr>category = Probability, severity = Critical, message = ProbabilityOutOfRange n NaN\<rparr>
           \<in> set (snd (scoreTally r n))"
proof -
  let ?i = "\<lparr>category = Probability, severity = Critical, message = ProbabilityOutOfRange n NaN\<rparr>"
  have "?i \<in> set (snd (probabilityCheck r n (1, [])))"
    using assms by (simp add: probabilityCheck_def snd_deduct)
  then show ?thesis
    unfolding scoreTally_def beforeInjection_def
    using mono_rubricCheck mono_totalCheck mono_pivotCheck mono_injectionCheck mono_lengthCheck
    by (meson subsetD)
qed

lemma unit_issues_in_document:
  assumes "n < length rs"
  shows "set (snd (scoreTally (rs ! n) n)) \<subseteq> set (snd (documentTally raw rs))"
proof -
  have "(rs ! n, n) \<in> set (zip rs [0..<length rs])"
    using assms by (force simp: set_zip)
  then have "scoreResponse (rs ! n) n \<in> set (responseScores rs)"
    by (force simp: responseScores_def)
  then have "snd (scoreResponse (rs ! n) n) \<in> snd ` set (responseScores rs)"
    by (rule imageI)
  then have "snd (scoreTally (rs ! n) n) \<in> set (map snd (responseScores rs))"
    by (simp add: scoreResponse_def)
  then have "set (snd (scoreTally (rs ! n) n)) \<subseteq> set (concat (map snd (responseScores rs)))"
    by auto
  then have "set (snd (scoreTally (rs ! n) n))
             \<subseteq> set (snd (probSumCheck rs (countCheck rs (tagCheck raw (1, []))))
                     @ concat (map snd (responseScores rs)))"
    by auto
  also have "\<dots> \<subseteq> set (snd (documentTally raw rs))"
    unfolding documentTally_def Let_def by (rule order_trans [OF _ snd_consistencyCheck_mono]) simp
  finally show ?thesis .
qed


subsection \<open>The statistics of an experiment\<close>

























subsection \<open>The sample inputs, evaluated\<close>

text \<open>
  The matcher, the parser and the scorer run on the sample inputs inside the logic, by
  rewriting with their defining equations.
\<close>

lemmas regex_eval = js_def str_def seqs_def chr_def plain_def flag_i_def flag_m_def
  isSpace_def isWhiteSpace_def isLineTerminator_def isDigit_def isWordChar_def canonicalize_def
  atLineStart_def atWordBoundary_def isWordAt_def test_def matchAll_def

lemmas parse_eval = parseResponses_def responseRegex_def capture_def trim_def parseFloat_def
  parseUnsigned_def exponentPart_def digitsValue_def pow10_def block_def

lemma formatA_x: "formatA xText = 0"
  by (simp add: xText_def formatA_def formatARegex_def regex_eval)

lemma formatB_x: "formatB xText = 0"
  by (simp add: xText_def formatB_def formatBRegex_def regex_eval)

lemma table_x: "hasScoreTable xText = 0"
  by (simp add: xText_def hasScoreTable_def scoreTableRegex_def regex_eval)

lemma total_x: "totalMatch xText = False"
  by (simp add: xText_def totalMatch_def totalRegex_def regex_eval)

lemma pivot_x: "hasPivot xText = False"
  by (simp add: xText_def hasPivot_def pivotRegex_def regex_eval)

lemma injection_x: "find (\<lambda>pt. test pt xText) injectionPatterns = None"
  by (simp add: xText_def injectionPatterns_def regex_eval)

lemma hasScores_x: "test hasScoresRegex xText = False"
  by (simp add: xText_def hasScoresRegex_def regex_eval)

lemma length_x: "length xText = 1"
  by (simp add: xText_def js_def)

lemma score_x:
  "\<not> js_isNaN p \<Longrightarrow> \<not> js_lt p (Num 0) \<Longrightarrow> \<not> js_gt p (Num 1) \<Longrightarrow>
   fst (scoreResponse \<lparr>rtext = xText, probability = p\<rparr> n) = 11 / 20"
  by (simp add: scoreResponse_def scoreTally_def beforeInjection_def lengthCheck_def
      injectionCheck_def pivotCheck_def totalCheck_def rubricCheck_def probabilityCheck_def
      bestScoreCount_def formatA_x formatB_x table_x total_x pivot_x injection_x length_x
      deduct_def)

lemma formatA_numbered: "formatA numberedText = 3"
  by (simp add: numberedText_def formatA_def formatARegex_def regex_eval)

lemma formatB_numbered: "formatB numberedText = 1"
  by (simp add: numberedText_def formatB_def formatBRegex_def regex_eval)

lemma table_numbered: "hasScoreTable numberedText = 0"
  by (simp add: numberedText_def hasScoreTable_def scoreTableRegex_def regex_eval)

lemma total_numbered: "totalMatch numberedText = True"
  by (simp add: numberedText_def totalMatch_def totalRegex_def regex_eval)

lemma pivot_numbered: "hasPivot numberedText = False"
  by (simp add: numberedText_def hasPivot_def pivotRegex_def regex_eval)

lemma injection_numbered: "find (\<lambda>pt. test pt numberedText) injectionPatterns = None"
  by (simp add: numberedText_def injectionPatterns_def regex_eval)

lemma hasScores_numbered: "test hasScoresRegex numberedText = True"
  by (simp add: numberedText_def hasScoresRegex_def regex_eval)

lemma length_numbered: "length numberedText = 36"
  by (simp add: numberedText_def js_def)

lemma score_numbered:
  "fst (scoreResponse \<lparr>rtext = numberedText, probability = Num 0\<rparr> n) = 63 / 100"
  by (simp add: scoreResponse_def scoreTally_def beforeInjection_def lengthCheck_def
      injectionCheck_def pivotCheck_def totalCheck_def rubricCheck_def probabilityCheck_def
      bestScoreCount_def formatA_numbered formatB_numbered table_numbered total_numbered
      pivot_numbered injection_numbered length_numbered deduct_def js_gt_def)

lemma parse_empty: "parseResponses [] = []"
  by (simp add: regex_eval parse_eval)

lemma parse_openOnly: "parseResponses openOnlyText = []"
  by (simp add: openOnlyText_def regex_eval parse_eval)

lemma tags_openOnly: "openTags openOnlyText = 1 \<and> closeTags openOnlyText = 0"
  by (simp add: openOnlyText_def openTags_def closeTags_def openTagRegex_def closeTagRegex_def regex_eval)

lemma tags_empty: "openTags [] = 0 \<and> closeTags [] = 0"
  by (simp add: openTags_def closeTags_def openTagRegex_def closeTagRegex_def regex_eval)

lemma parse_single: "parseResponses singleText = [\<lparr>rtext = xText, probability = Num 0\<rparr>]"
  by (simp add: singleText_def xText_def regex_eval parse_eval)

lemma tags_single: "openTags singleText = 1 \<and> closeTags singleText = 1"
  by (simp add: singleText_def xText_def block_def openTags_def closeTags_def openTagRegex_def closeTagRegex_def regex_eval)


lemma parse_nan:
  "parseResponses nanText = [\<lparr>rtext = xText, probability = Num (9 / 10)\<rparr>,
                             \<lparr>rtext = xText, probability = Num (9 / 10)\<rparr>,
                             \<lparr>rtext = xText, probability = NaN\<rparr>]"
  by (simp add: nanText_def xText_def regex_eval parse_eval)

lemma parse_boundary:
  "parseResponses boundaryText =
     [\<lparr>rtext = xText, probability = Num 0\<rparr>, \<lparr>rtext = xText, probability = Num 0\<rparr>,
      \<lparr>rtext = xText, probability = Num 0\<rparr>, \<lparr>rtext = xText, probability = Num 0\<rparr>,
      \<lparr>rtext = numberedText, probability = Num 0\<rparr>]"
  by (simp add: boundaryText_def xText_def numberedText_def regex_eval parse_eval)

lemma tags_boundary: "openTags boundaryText = 5 \<and> closeTags boundaryText = 5"
  by (simp add: boundaryText_def xText_def numberedText_def block_def openTags_def closeTags_def
      openTagRegex_def closeTagRegex_def regex_eval)

lemma composite_single: "compositeScore singleText = 67 / 100"
  by (simp add: compositeScore_def documentTally_def parse_single tags_single tagCheck_def
      countCheck_def probSumCheck_def probSum_def js_gt_def consistencyCheck_def hasScoresFlags_def
      hasScores_x avgResponseScore_def responseScores_def score_x deduct_def)

lemma toFixed3_single: "toFixed3 (67 / 100) = 67 / 100"
proof -
  have "\<lfloor>(67 / 100 :: rat) * 1000 + 1 / 2\<rfloor> = 670"
    by (rule floor_unique) simp_all
  then show ?thesis by (simp add: toFixed3_def)
qed

lemma gate_single: "score (qualityGate singleText) = 67 / 100 \<and> passesGate (qualityGate singleText) = False"
  by (simp add: qualityGate_def parse_single composite_single toFixed3_single QUALITY_THRESHOLD_def)

lemma composite_boundary: "compositeScore boundaryText = 1749 / 2500"
  by (simp add: compositeScore_def documentTally_def parse_boundary tags_boundary tagCheck_def
      countCheck_def probSumCheck_def probSum_def js_gt_def consistencyCheck_def hasScoresFlags_def
      hasScores_x hasScores_numbered avgResponseScore_def responseScores_def score_x score_numbered
      deduct_def)

lemma toFixed3_boundary: "toFixed3 (1749 / 2500) = 7 / 10"
proof -
  have "\<lfloor>(1749 / 2500 :: rat) * 1000 + 1 / 2\<rfloor> = 700"
    by (rule floor_unique) simp_all
  then show ?thesis by (simp add: toFixed3_def)
qed

lemma gate_boundary:
  "score (qualityGate boundaryText) = 7 / 10 \<and> passesGate (qualityGate boundaryText) = False"
  by (simp add: qualityGate_def parse_boundary composite_boundary toFixed3_boundary QUALITY_THRESHOLD_def)

lemma gate_empty: "score (qualityGate []) = 0 \<and> passesGate (qualityGate []) = False"
  by (simp add: qualityGate_def parse_empty)

lemma truthy_keys: "truthy (Some (js ''ka'')) \<and> truthy (Some (js ''km'')) \<and> \<not> truthy None"
  by (simp add: truthy_def js_def)

lemma select_one: "selectVariant rand oneVariant = Some openaiVariant"
  by (cases "rand \<le> 1") (simp_all add: selectVariant_def oneVariant_def openaiVariant_def)

lemma boundary_disagreement:
  "score (qualityGate boundaryText) = QUALITY_THRESHOLD
   \<and> \<not> passesGate (qualityGate boundaryText)
   \<and> (\<exists>res. evaluate twoTierConfig (openaiSays boundaryText) idea = Inr res
          \<and> provider res = Anthropic \<and> escalated res)
   \<and> (\<exists>res e. evaluateWithExperiment twoTierConfig (openaiSays boundaryText) rand elapsed idea
                  oneVariant = Inr (res, e)
          \<and> provider res = OpenAI \<and> \<not> escalated res \<and> quality res = QUALITY_THRESHOLD)"
  by (simp add: evaluate_def tier1_def callOpenAI_def callAnthropic_def allowEscalationOf_def
      qualityThresholdOf_def twoTierConfig_def openaiSays_def truthy_keys reply_def gate_boundary
      QUALITY_THRESHOLD_def evaluateWithExperiment_def select_one callVariant_def
      openaiVariant_def schemaStep_def thresholdOf_def configOf_def orElse_def)

lemma injected_matches: "test (hd injectionPatterns) (rtext injectedResponse)"
  by (simp add: injectionPatterns_def injectedResponse_def regex_eval)




lemma keys_distinct:
  "js ''good'' \<noteq> js ''bad'' \<and> js ''bad'' \<noteq> js ''good''
   \<and> js ''good'' \<noteq> js ''__proto__'' \<and> js ''bad'' \<noteq> js ''__proto__''
   \<and> \<not> isArrayIndex (js ''good'') \<and> \<not> isArrayIndex (js ''bad'')"
  by (simp add: js_def isArrayIndex_def isDigit_def)


lemma options_zero:
  "minSamplesOf zeroOptions = 0 \<and> optimizeForOf zeroOptions = js ''quality''"
  by (simp add: minSamplesOf_def optimizeForOf_def zeroOptions_def)



lemma stats_none:
  "getExperimentStats noSamples =
     [(js ''good'', \<lparr>samples = 0, sweight = Some (Num (1 / 2)), detail = None\<rparr>),
      (js ''bad'', \<lparr>samples = 0, sweight = Some (Num (1 / 2)), detail = None\<rparr>)]"
  by (simp add: getExperimentStats_def noSamples_def goodVariant_def badVariant_def objSet_def
      statsOf_def keys_distinct)


lemma entries_pair:
  "\<not> isArrayIndex a \<Longrightarrow> \<not> isArrayIndex b \<Longrightarrow> objectEntries [(a, x), (b, y)] = [(a, x), (b, y)]"
  by (simp add: objectEntries_def)


lemma eligible_none_zero: "length (eligible noSamples zeroOptions) = 2"
  by (simp add: eligible_def stats_none entries_pair keys_distinct options_zero)




section \<open>The claims\<close>

text \<open>
  Claim C1: in \<open>evaluate\<close>, an error of a provider call at a tier that is not the last
  one makes the router go on to the next tier; with MiniMax configured, an error of the
  OpenAI call escalates to Anthropic.

  The code does this for tier 1 only, whose call stands in a \<^verbatim>\<open>try\<close> block. The call
  of tier 2 is unguarded: below, MiniMax is configured and fails (tier 1 escalates),
  Anthropic is configured and would answer, and the error of OpenAI is what
  \<open>evaluate\<close> ends with.
\<close>

theorem openai_error_aborts:
  "tier1 threeTierConfig onlyAnthropicUp idea = Escalate None
   \<and> callAnthropic threeTierConfig onlyAnthropicUp idea = Inr (reply [])
   \<and> evaluate threeTierConfig onlyAnthropicUp idea = Inl (ProviderError OpenAI (js ''down''))"
  by (simp add: evaluate_def tier1_def callMiniMax_def callOpenAI_def callAnthropic_def
      threeTierConfig_def twoTierConfig_def onlyAnthropicUp_def truthy_keys)


text \<open>
  Claim C2: for every input \<open>qualityGate\<close> returns a report, and when no response unit
  is parsed the report has score 0, does not pass, has no responses and has a single
  critical issue.

  All functions of the model are total, the matcher by its termination proof, so a report
  is returned for every string. The single issue fails where the tag counts differ: the
  tag check runs before the parse and its issue stays in the report. For the input
  \<^verbatim>\<open><response>\<close> the report has two issues.
\<close>

theorem single_issue_counterexample:
  "parseResponses openOnlyText = [] \<and> length (issues (qualityGate openOnlyText)) = 2"
  by (simp add: qualityGate_def parse_openOnly tagCheck_def tags_openOnly deduct_def)


text \<open>
  Claim C2, amended: when no response unit is parsed, the report has score 0, does not
  pass, has no responses, and its issues are the critical issue of the empty parse,
  preceded by the critical issue of the tag check exactly when the numbers of opening and
  closing tags differ.
\<close>

theorem zero_units_short_circuit:
  assumes "parseResponses raw = []"
  shows "score (qualityGate raw) = 0 \<and> passesGate (qualityGate raw) = False
         \<and> responses (qualityGate raw) = []
         \<and> issues (qualityGate raw) =
             (if openTags raw \<noteq> closeTags raw
              then [\<lparr>category = Xml, severity = Critical,
                     message = MismatchedTags (openTags raw) (closeTags raw)\<rparr>]
              else [])
             @ [\<lparr>category = Xml, severity = Critical, message = NoValidBlocks\<rparr>]"
  using assms by (simp add: qualityGate_empty_parse tagCheck_def snd_deduct)

theorem zero_units_short_circuit_witness:
  "parseResponses [] = []
   \<and> score (qualityGate []) = 0 \<and> passesGate (qualityGate []) = False
   \<and> responses (qualityGate []) = []
   \<and> issues (qualityGate []) = [\<lparr>category = Xml, severity = Critical, message = NoValidBlocks\<rparr>]
   \<and> parseResponses openOnlyText = []
   \<and> issues (qualityGate openOnlyText) =
        [\<lparr>category = Xml, severity = Critical, message = MismatchedTags 1 0\<rparr>,
         \<lparr>category = Xml, severity = Critical, message = NoValidBlocks\<rparr>]"
  using zero_units_short_circuit [OF parse_empty] zero_units_short_circuit [OF parse_openOnly]
  by (simp add: parse_empty parse_openOnly tags_empty tags_openOnly)


text \<open>
  Claim C3: with at least one parsed unit the composite score is the document score times
  0.4 plus the mean unit score times 0.6, clamped to the unit interval, and
  \<open>passesGate\<close> compares it with a threshold that is 0.70 by default and that the
  caller overrides with the \<open>qualityThreshold\<close> of the router.

  The composite is as claimed (\<open>compositeScore\<close>), but \<open>qualityGate\<close> compares
  it with the constant 0.70 and \<open>evaluate\<close> decides by \<open>passesGate\<close> alone: the
  configured threshold is read for the log message only. Below, the router is configured
  with the threshold 0.5, OpenAI answers with a text whose composite score is 0.67, and
  \<open>evaluate\<close> escalates to Anthropic all the same.
\<close>

theorem configured_threshold_ignored:
  "qualityThresholdOf lowThresholdConfig = 1 / 2
   \<and> compositeScore singleText = 67 / 100
   \<and> score (qualityGate singleText) = 67 / 100
   \<and> (\<exists>res. evaluate lowThresholdConfig (openaiSays singleText) idea = Inr res
          \<and> provider res = Anthropic \<and> escalated res)"
  by (simp add: evaluate_def tier1_def callOpenAI_def callAnthropic_def qualityThresholdOf_def
      allowEscalationOf_def lowThresholdConfig_def twoTierConfig_def openaiSays_def truthy_keys
      reply_def gate_single composite_single)


text \<open>
  Claim C4: when \<open>evaluate\<close> reaches the last tier, the result of that tier is
  returned whatever its own gate says, with \<open>escalated\<close> true. The last tier is the
  Anthropic call; it is reached when no earlier tier returned or threw, and its result
  exists when that call returns.
\<close>

theorem terminal_tier_returned:
  assumes "reachesAnthropic cfg net idea" and "callAnthropic cfg net idea = Inr fallback"
  shows "\<exists>res. evaluate cfg net idea = Inr res \<and> provider res = Anthropic \<and> escalated res
           \<and> res_model res = model fallback
           \<and> quality res = score (qualityGate (outputText fallback))
           \<and> res_responses res = responses (qualityGate (outputText fallback))
           \<and> res_issues res = issues (qualityGate (outputText fallback))"
  using assms
  by (auto simp: reachesAnthropic_def evaluate_def split: tier1_outcome.splits sum.splits)

theorem terminal_tier_returned_witness:
  "reachesAnthropic twoTierConfig (openaiSays []) [] 
   \<and> callAnthropic twoTierConfig (openaiSays []) [] = Inr (reply [])
   \<and> \<not> passesGate (qualityGate (outputText (reply [])))
   \<and> (\<exists>res. evaluate twoTierConfig (openaiSays []) [] = Inr res \<and> provider res = Anthropic
          \<and> escalated res \<and> res_model res = model (reply [])
          \<and> quality res = score (qualityGate (outputText (reply [])))
          \<and> res_responses res = responses (qualityGate (outputText (reply [])))
          \<and> res_issues res = issues (qualityGate (outputText (reply []))))"
proof -
  have r: "reachesAnthropic twoTierConfig (openaiSays []) []"
    by (simp add: reachesAnthropic_def tier1_def callOpenAI_def allowEscalationOf_def
        twoTierConfig_def openaiSays_def truthy_keys reply_def gate_empty)
  have c: "callAnthropic twoTierConfig (openaiSays []) [] = Inr (reply [])"
    by (simp add: callAnthropic_def twoTierConfig_def openaiSays_def truthy_keys)
  have g: "\<not> passesGate (qualityGate (outputText (reply [])))"
    by (simp add: reply_def gate_empty)
  from r c g terminal_tier_returned [OF r c] show ?thesis by blast
qed


text \<open>
  Claim C5: when the text of a response unit matches one of the injection patterns,
  \<open>scoreResponse\<close> pushes exactly one issue of the category injection, which is
  critical and names the first pattern that matches, and the score before the final clamp
  is 0.4 lower than the checks before the injection check left it; the later length check
  can only lower it further.
\<close>

theorem injection_detected:
  assumes "\<exists>pt \<in> set injectionPatterns. test pt (rtext r)"
  shows "\<exists>pt. find (\<lambda>pt. test pt (rtext r)) injectionPatterns = Some pt
      \<and> filter (\<lambda>i. category i = Injection) (snd (scoreResponse r index))
          = [\<lparr>category = Injection, severity = Critical,
              message = InjectionArtifact index (source pt)\<rparr>]
      \<and> fst (injectionCheck (rtext r) index (beforeInjection r index))
          = fst (beforeInjection r index) - 4 / 10
      \<and> fst (scoreTally r index) \<le> fst (beforeInjection r index) - 4 / 10
      \<and> fst (scoreTally r index) \<le> 1 - 4 / 10
      \<and> fst (scoreResponse r index) = max 0 (fst (scoreTally r index))"
proof -
  from find_injection [OF assms] obtain pt
    where f: "find (\<lambda>pt. test pt (rtext r)) injectionPatterns = Some pt" by blast
  let ?i = "\<lparr>category = Injection, severity = Critical, message = InjectionArtifact index (source pt)\<rparr>"
  have ic: "injectionCheck (rtext r) index (beforeInjection r index)
            = deduct ?i (4 / 10) (beforeInjection r index)"
    by (simp add: injectionCheck_def f)
  have a: "filter (\<lambda>i. category i = Injection) (snd (scoreResponse r index)) = [?i]"
    by (simp add: scoreResponse_def scoreTally_def inj_lengthCheck ic snd_deduct inj_beforeInjection)
  have b: "fst (injectionCheck (rtext r) index (beforeInjection r index))
           = fst (beforeInjection r index) - 4 / 10"
    by (simp add: ic fst_deduct)
  have c: "fst (scoreTally r index) \<le> fst (beforeInjection r index) - 4 / 10"
    unfolding scoreTally_def using fst_lengthCheck_le [of "rtext r" index
        "injectionCheck (rtext r) index (beforeInjection r index)"] b by simp
  have d: "fst (scoreTally r index) \<le> 1 - 4 / 10"
    using c fst_beforeInjection_le [of r index] by simp
  have e: "fst (scoreResponse r index) = max 0 (fst (scoreTally r index))"
    by (simp add: scoreResponse_def)
  from f a b c d e show ?thesis by blast
qed

theorem injection_detected_witness:
  "(\<exists>pt \<in> set injectionPatterns. test pt (rtext injectedResponse))
   \<and> (\<exists>pt. find (\<lambda>pt. test pt (rtext injectedResponse)) injectionPatterns = Some pt
      \<and> filter (\<lambda>i. category i = Injection) (snd (scoreResponse injectedResponse 0))
          = [\<lparr>category = Injection, severity = Critical,
              message = InjectionArtifact 0 (source pt)\<rparr>]
      \<and> fst (injectionCheck (rtext injectedResponse) 0 (beforeInjection injectedResponse 0))
          = fst (beforeInjection injectedResponse 0) - 4 / 10
      \<and> fst (scoreTally injectedResponse 0) \<le> fst (beforeInjection injectedResponse 0) - 4 / 10
      \<and> fst (scoreTally injectedResponse 0) \<le> 1 - 4 / 10
      \<and> fst (scoreResponse injectedResponse 0) = max 0 (fst (scoreTally injectedResponse 0)))"
proof -
  have "hd injectionPatterns \<in> set injectionPatterns"
    by (simp add: injectionPatterns_def)
  with injected_matches have h: "\<exists>pt \<in> set injectionPatterns. test pt (rtext injectedResponse)"
    by blast
  from h injection_detected [OF h, of 0] show ?thesis by blast
qed










text \<open>
  Claim C9: \<open>qualityGate\<close> decides \<open>passesGate\<close> on the unrounded composite
  score and reports the score rounded to three decimals, so some input has a reported
  score equal to the threshold 0.70 and does not pass; \<open>evaluateWithExperiment\<close>
  compares the rounded score with the threshold, so the two entry points disagree on that
  text. The input is \<open>boundaryText\<close>, whose composite score is 0.6996: \<open>evaluate\<close>
  escalates to Anthropic, \<open>evaluateWithExperiment\<close> returns the answer of OpenAI.
\<close>

theorem rounded_score_disagrees:
  "\<exists>raw. score (qualityGate raw) = QUALITY_THRESHOLD \<and> \<not> passesGate (qualityGate raw)
     \<and> (\<forall>idea rand elapsed.
          (\<exists>res. evaluate twoTierConfig (openaiSays raw) idea = Inr res
              \<and> provider res = Anthropic \<and> escalated res)
          \<and> (\<exists>res e. evaluateWithExperiment twoTierConfig (openaiSays raw) rand elapsed idea
                        oneVariant = Inr (res, e)
              \<and> provider res = OpenAI \<and> \<not> escalated res \<and> quality res = QUALITY_THRESHOLD))"
  using boundary_disagreement by (intro exI [of _ boundaryText]) blast


text \<open>
  Claim C10: when the probability of some parsed unit is NaN, the sum of the
  probabilities is NaN, the report has no issue for the sum and the document score has no
  deduction for it, whatever the other probabilities are; the unit with the NaN has its
  own critical issue of the category probability, and every issue of that category in the
  report is such an issue of one unit.
\<close>

theorem nan_probability_skips_sum_check:
  assumes "n < length (parseResponses raw)"
    and "probability (parseResponses raw ! n) = NaN"
  shows "probSum (parseResponses raw) = NaN
    \<and> (\<forall>x \<in> set (issues (qualityGate raw)). \<forall>s. message x \<noteq> ProbabilitySumExceeds s)
    \<and> fst (documentTally raw (parseResponses raw))
        = fst (consistencyCheck (parseResponses raw)
                (countCheck (parseResponses raw) (tagCheck raw (1, []))))
    \<and> \<lparr>category = Probability, severity = Critical, message = ProbabilityOutOfRange n NaN\<rparr>
        \<in> set (issues (qualityGate raw))
    \<and> (\<forall>x \<in> set (issues (qualityGate raw)).
          category x = Probability \<longrightarrow> (\<exists>j p. message x = ProbabilityOutOfRange j p))"
proof -
  let ?rs = "parseResponses raw"
  let ?t3 = "countCheck ?rs (tagCheck raw (1, []))"
  let ?Q = "\<lambda>x. (category x = Probability \<longrightarrow> (\<exists>j p. message x = ProbabilityOutOfRange j p))
              \<and> (\<forall>s. message x \<noteq> ProbabilitySumExceeds s)"
  have ne: "?rs \<noteq> []" using assms(1) by auto
  have gi: "issues (qualityGate raw) = snd (documentTally raw ?rs)"
    using ne by (simp add: qualityGate_def)
  have nan: "probSum ?rs = NaN"
    using assms by (intro probSum_NaN [of "?rs ! n"]) simp_all
  have t4: "probSumCheck ?rs ?t3 = ?t3"
    by (simp add: probSumCheck_def nan js_gt_def)
  have t3Q: "\<forall>x \<in> set (snd ?t3). ?Q x"
    by (simp add: countCheck_def tagCheck_def snd_deduct)
  have unitQ: "\<And>r k. \<forall>x \<in> set (snd (scoreTally r k)). ?Q x"
    by (rule scoreTally_issues) auto
  have allQ: "\<forall>x \<in> set (issues (qualityGate raw)). ?Q x"
  proof
    fix x assume "x \<in> set (issues (qualityGate raw))"
    then have "x \<in> set (snd (documentTally raw ?rs))" by (simp add: gi)
    from document_issue_cases [OF this] show "?Q x"
      using t3Q unitQ by (auto simp: t4)
  qed
  have b: "fst (documentTally raw ?rs) = fst (consistencyCheck ?rs ?t3)"
    by (simp add: documentTally_def Let_def t4 consistencyCheck_def fst_deduct)
  have c: "\<lparr>category = Probability, severity = Critical, message = ProbabilityOutOfRange n NaN\<rparr>
        \<in> set (issues (qualityGate raw))"
    using NaN_issue_scoreTally [OF assms(2), of n] unit_issues_in_document [OF assms(1), of raw]
    by (auto simp: gi)
  from nan allQ b c show ?thesis by blast
qed

theorem nan_probability_skips_sum_check_witness:
  "2 < length (parseResponses nanText)
   \<and> probability (parseResponses nanText ! 2) = NaN
   \<and> js_gt (js_add (probability (parseResponses nanText ! 0))
                  (probability (parseResponses nanText ! 1))) (Num 1)
   \<and> probSum (parseResponses nanText) = NaN
   \<and> \<not> (\<exists>x \<in> set (issues (qualityGate nanText)). \<exists>s. message x = ProbabilitySumExceeds s)
   \<and> fst (documentTally nanText (parseResponses nanText))
        = fst (consistencyCheck (parseResponses nanText)
                (countCheck (parseResponses nanText) (tagCheck nanText (1, []))))
   \<and> \<lparr>category = Probability, severity = Critical, message = ProbabilityOutOfRange 2 NaN\<rparr>
        \<in> set (issues (qualityGate nanText))
   \<and> \<not> (\<exists>x \<in> set (issues (qualityGate nanText)).
           category x = Probability \<and> (\<forall>j p. message x \<noteq> ProbabilityOutOfRange j p))"
proof -
  have l: "2 < length (parseResponses nanText)" by (simp add: parse_nan)
  have n: "probability (parseResponses nanText ! 2) = NaN" by (simp add: parse_nan)
  have s: "js_gt (js_add (probability (parseResponses nanText ! 0))
                  (probability (parseResponses nanText ! 1))) (Num 1)"
    by (simp add: parse_nan js_gt_def)
  from l n s nan_probability_skips_sum_check [OF l n] show ?thesis by blast
qed


end
